theory Spec2Isabelle
  imports Main "HOL-Library.Monad_Syntax"
begin

section \<open>GraphAr schema models and their YAML bridge over Spark\<close>

text \<open>
  The development follows \<^verbatim>\<open>pyspark/graphar_pyspark/v2/models.py\<close> (the schema
  classes) and \<^verbatim>\<open>pyspark/graphar_pyspark/v2/helpers.py\<close> (the two functions that
  move a model through YAML text and a Spark text table).  The code is a thin layer
  over three libraries, which are modelled only as far as the code calls them:
  pydantic (validation of a mapping against the declared fields), PyYAML
  (\<^verbatim>\<open>safe_dump\<close>, \<^verbatim>\<open>safe_load\<close>) and Spark's text data source.
  Python strings are lists of characters; only the newline character is ever
  inspected.
\<close>

subsection \<open>Enumerations\<close>

text \<open>\<^verbatim>\<open>class GarType(str, Enum)\<close>, with the member names of the source.\<close>

datatype GarType = BOOl | INT32 | INT64 | FLOAT | DOUBLE | STRING | LIST

fun GarType_value :: "GarType \<Rightarrow> string" where
  "GarType_value BOOl = ''bool''"
| "GarType_value INT32 = ''int32''"
| "GarType_value INT64 = ''int64''"
| "GarType_value FLOAT = ''float''"
| "GarType_value DOUBLE = ''double''"
| "GarType_value STRING = ''string''"
| "GarType_value LIST = ''list''"

definition GarType_members :: "GarType list" where
  "GarType_members = [BOOl, INT32, INT64, FLOAT, DOUBLE, STRING, LIST]"

text \<open>\<^verbatim>\<open>class FileType(str, Enum)\<close>.\<close>

datatype FileType = CSV | PARQUET | ORC

fun FileType_value :: "FileType \<Rightarrow> string" where
  "FileType_value CSV = ''csv''"
| "FileType_value PARQUET = ''parquet''"
| "FileType_value ORC = ''orc''"

definition FileType_members :: "FileType list" where
  "FileType_members = [CSV, PARQUET, ORC]"

text \<open>\<^verbatim>\<open>class AdjListType(str, Enum)\<close>.\<close>

datatype AdjListType =
  UNORDERED_BY_SOURCE | UNORDERED_BY_DEST | ORDERED_BY_SOURCE | ORDERED_BY_DEST

fun AdjListType_value :: "AdjListType \<Rightarrow> string" where
  "AdjListType_value UNORDERED_BY_SOURCE = ''unordered_by_source''"
| "AdjListType_value UNORDERED_BY_DEST = ''unordered_by_dest''"
| "AdjListType_value ORDERED_BY_SOURCE = ''ordered_by_source''"
| "AdjListType_value ORDERED_BY_DEST = ''ordered_by_dest''"

definition AdjListType_members :: "AdjListType list" where
  "AdjListType_members =
     [UNORDERED_BY_SOURCE, UNORDERED_BY_DEST, ORDERED_BY_SOURCE, ORDERED_BY_DEST]"

text \<open>
  Looking a member up by its value, as \<^verbatim>\<open>GarType("int32")\<close> does: the first
  member whose value is the given string, and no member otherwise.
\<close>

definition GarType_of :: "string \<Rightarrow> GarType option" where
  "GarType_of s = find (\<lambda>g. GarType_value g = s) GarType_members"

definition FileType_of :: "string \<Rightarrow> FileType option" where
  "FileType_of s = find (\<lambda>g. FileType_value g = s) FileType_members"

definition AdjListType_of :: "string \<Rightarrow> AdjListType option" where
  "AdjListType_of s = find (\<lambda>g. AdjListType_value g = s) AdjListType_members"

subsection \<open>Python values\<close>

text \<open>
  The values that travel between the three libraries: what \<^verbatim>\<open>model_dump\<close> returns,
  what \<^verbatim>\<open>yaml.safe_load\<close> returns and what \<^verbatim>\<open>validate\<close> receives.  A dict is an
  association list in insertion order, with string keys.  An enumeration member is a
  value of its own class (\<open>PEnum\<close>), not the string it wraps.
\<close>

datatype enum_member =
  GarMember GarType | FileMember FileType | AdjMember AdjListType

datatype pyval =
    PNone
  | PBool bool
  | PInt int
  | PStr string
  | PEnum enum_member
  | PList "pyval list"
  | PDict "(string \<times> pyval) list"

text \<open>
  The exceptions that reach the caller.  None is raised by the code itself: a
  \<open>ParseError\<close> is PyYAML's error on malformed text, a \<open>RepresenterError\<close> PyYAML's
  error on a value it cannot dump, a \<open>SchemaValidationError\<close> pydantic's
  \<^verbatim>\<open>ValidationError\<close>, a \<open>NotFoundError\<close> Spark's error on a path that does not
  exist, and a \<open>TextSchemaError\<close> Spark's refusal to write a table that is not one
  text column.
\<close>

datatype error =
  ParseError | RepresenterError | SchemaValidationError | NotFoundError | TextSchemaError

subsection \<open>Lines\<close>

text \<open>\<^verbatim>\<open>s.split("\n")\<close>: cut at every newline; the result is never empty.\<close>

fun split_nl :: "string \<Rightarrow> string list" where
  "split_nl [] = [[]]"
| "split_nl (c # cs) =
     (if c = CHR 0x0A then [] # split_nl cs
      else (case split_nl cs of [] \<Rightarrow> [[c]] | l # ls \<Rightarrow> (c # l) # ls))"

text \<open>\<^verbatim>\<open>"\n".join(lines)\<close>.\<close>

fun join_nl :: "string list \<Rightarrow> string" where
  "join_nl [] = []"
| "join_nl [l] = l"
| "join_nl (l # m # ls) = l @ CHR 0x0A # join_nl (m # ls)"

subsection \<open>The Spark text table\<close>

text \<open>
  A row is the tuple of its column values.  A location of the store holds the rows of
  a text table, each of which is one string (the column \<^verbatim>\<open>value\<close>).
\<close>

type_synonym row = "string list"

type_synonym store = "string \<Rightarrow> string list option"

text \<open>
  \<^verbatim>\<open>spark.createDataFrame(rows)\<close> on a list of tuples keeps the tuples as the rows
  of the frame.
\<close>

definition createDataFrame :: "row list \<Rightarrow> row list" where
  "createDataFrame rows = rows"

text \<open>
  \<^verbatim>\<open>df.write.format("text").mode("overwrite").option("header", "false").save(location)\<close>.
  Spark's text data source writes a frame of exactly one string column, one line per
  row and no header line, and raises on any other frame; in overwrite mode the rows
  replace whatever the location held.
\<close>

definition save_text_overwrite :: "store \<Rightarrow> string \<Rightarrow> row list \<Rightarrow> error + store" where
  "save_text_overwrite st location df =
     (if list_all (\<lambda>r. length r = 1) df
      then Inr (st(location \<mapsto> concat df))
      else Inl TextSchemaError)"

text \<open>
  \<^verbatim>\<open>spark.read.text(location).collect()\<close>: the rows at the location, in the
  order the store returns them; a path that does not exist raises.
\<close>

definition read_text :: "store \<Rightarrow> string \<Rightarrow> error + string list" where
  "read_text st location =
     (case st location of None \<Rightarrow> Inl NotFoundError | Some recs \<Rightarrow> Inr recs)"

subsection \<open>PyYAML\<close>

text \<open>
  \<^verbatim>\<open>yaml.safe_dump\<close> represents the exact built-in types only (none, bool, int, str,
  list, dict among those that occur here) and raises a representer error on an
  instance of any other class, a member of a \<^verbatim>\<open>str\<close>-backed \<^verbatim>\<open>Enum\<close> included,
  since the safe representer looks the class of a value up by identity.  The text it
  prints for a representable value is the parameter \<open>emit\<close>.
\<close>

fun representable :: "pyval \<Rightarrow> bool" where
  "representable (PEnum m) = False"
| "representable (PList xs) = (\<forall>x \<in> set xs. representable x)"
| "representable (PDict kvs) = (\<forall>kv \<in> set kvs. representable (snd kv))"
| "representable v = True"

definition safe_dump :: "(pyval \<Rightarrow> string) \<Rightarrow> pyval \<Rightarrow> error + string" where
  "safe_dump emit v = (if representable v then Inr (emit v) else Inl RepresenterError)"

text \<open>
  \<^verbatim>\<open>yaml.safe_load\<close>: the parser is the parameter \<open>load\<close>, which returns no value on
  malformed text.
\<close>

definition safe_load :: "(string \<Rightarrow> pyval option) \<Rightarrow> string \<Rightarrow> error + pyval" where
  "safe_load load text = (case load text of None \<Rightarrow> Inl ParseError | Some v \<Rightarrow> Inr v)"

subsection \<open>helpers.py\<close>

text \<open>
  \<^verbatim>\<open>tuple(v)\<close> for a string \<open>v\<close>: Python iterates over the string, so the tuple has
  one item per character of \<open>v\<close>, each a string of length one.
\<close>

definition tuple_of_str :: "string \<Rightarrow> row" where
  "tuple_of_str v = map (\<lambda>c. [c]) v"

text \<open>\<^verbatim>\<open>raw_text = [tuple(v) for v in text.split("\n")]\<close>.\<close>

definition raw_text_rows :: "string \<Rightarrow> row list" where
  "raw_text_rows text = map tuple_of_str (split_nl text)"

text \<open>
  \<^verbatim>\<open>write_yaml_to_any(location, model, spark)\<close>; \<open>pydict\<close> is
  \<^verbatim>\<open>model.model_dump(mode="python")\<close>.  The result is the store after the call, or
  the exception.
\<close>

definition write_yaml_to_any ::
  "(pyval \<Rightarrow> string) \<Rightarrow> store \<Rightarrow> string \<Rightarrow> pyval \<Rightarrow> error + store" where
  "write_yaml_to_any emit st location pydict =
     (case safe_dump emit pydict of
        Inl e \<Rightarrow> Inl e
      | Inr text \<Rightarrow> save_text_overwrite st location (createDataFrame (raw_text_rows text)))"

text \<open>
  \<^verbatim>\<open>read_yaml_from_any(location, model, spark)\<close>; \<open>validate\<close> is
  \<^verbatim>\<open>model.validate\<close>.
\<close>

definition read_yaml_from_any ::
  "(string \<Rightarrow> pyval option) \<Rightarrow> (pyval \<Rightarrow> error + 'm) \<Rightarrow> store \<Rightarrow> string \<Rightarrow> error + 'm" where
  "read_yaml_from_any load validate st location =
     (case read_text st location of
        Inl e \<Rightarrow> Inl e
      | Inr recs \<Rightarrow>
          (case safe_load load (join_nl recs) of
             Inl e \<Rightarrow> Inl e
           | Inr pydict \<Rightarrow> validate pydict))"

text \<open>
  The write path as section 4.3 of the specification words it,
  \<^verbatim>\<open>put(location, text)\<close>, to compare the code with: every line of the text is
  one record with a single text column.
\<close>

definition put_records_spec :: "string \<Rightarrow> row list" where
  "put_records_spec text = map (\<lambda>l. [l]) (split_nl text)"

subsection \<open>pydantic field validation\<close>

text \<open>
  \<^verbatim>\<open>model.validate(pydict)\<close> builds an instance from a mapping: a key that is
  absent takes the declared default of the field, which is not validated; a key that
  is present is validated against the annotation of the field; keys that name no field
  are ignored; any failure rejects the whole mapping.  A dict has distinct keys, so
  \<^const>\<open>map_of\<close> reads it.
\<close>

definition field ::
  "(string \<times> pyval) list \<Rightarrow> string \<Rightarrow> 'a \<Rightarrow> (pyval \<Rightarrow> 'a option) \<Rightarrow> 'a option" where
  "field kvs key dflt validator =
     (case map_of kvs key of None \<Rightarrow> Some dflt | Some v \<Rightarrow> validator v)"

text \<open>
  The validators of the annotations that occur in the models.  Each accepts the values
  of the annotated type; the conversions that pydantic also offers between scalar
  types (such as the string \<^verbatim>\<open>"1"\<close> for an \<^verbatim>\<open>int\<close>) are not modelled, and such a
  value is rejected here.  An enumeration field accepts a member of its class and the
  string value of a member, and nothing else.
\<close>

fun str_validator :: "pyval \<Rightarrow> string option" where
  "str_validator (PStr s) = Some s"
| "str_validator v = None"

fun int_validator :: "pyval \<Rightarrow> int option" where
  "int_validator (PInt n) = Some n"
| "int_validator v = None"

fun bool_validator :: "pyval \<Rightarrow> bool option" where
  "bool_validator (PBool b) = Some b"
| "bool_validator v = None"

fun optional_bool_validator :: "pyval \<Rightarrow> bool option option" where
  "optional_bool_validator PNone = Some None"
| "optional_bool_validator (PBool b) = Some (Some b)"
| "optional_bool_validator v = None"

fun GarType_validator :: "pyval \<Rightarrow> GarType option" where
  "GarType_validator (PEnum (GarMember g)) = Some g"
| "GarType_validator (PStr s) = GarType_of s"
| "GarType_validator v = None"

fun FileType_validator :: "pyval \<Rightarrow> FileType option" where
  "FileType_validator (PEnum (FileMember g)) = Some g"
| "FileType_validator (PStr s) = FileType_of s"
| "FileType_validator v = None"

fun AdjListType_validator :: "pyval \<Rightarrow> AdjListType option" where
  "AdjListType_validator (PEnum (AdjMember g)) = Some g"
| "AdjListType_validator (PStr s) = AdjListType_of s"
| "AdjListType_validator v = None"

fun list_validator :: "(pyval \<Rightarrow> 'a option) \<Rightarrow> pyval \<Rightarrow> 'a list option" where
  "list_validator item (PList xs) = those (map item xs)"
| "list_validator item v = None"

text \<open>\<^verbatim>\<open>model.validate\<close> as the caller sees it: the instance, or the exception.\<close>

definition validate :: "(pyval \<Rightarrow> 'm option) \<Rightarrow> pyval \<Rightarrow> error + 'm" where
  "validate validator pydict =
     (case validator pydict of None \<Rightarrow> Inl SchemaValidationError | Some m \<Rightarrow> Inr m)"

subsection \<open>models.py\<close>

text \<open>
  The fields of the classes keep their names behind a prefix for the class, since
  several classes share field names (\<^verbatim>\<open>prefix\<close>, \<^verbatim>\<open>name\<close>, \<^verbatim>\<open>file_type\<close>,
  \<^verbatim>\<open>version\<close>).

  \<^verbatim>\<open>Property.data_type\<close> is annotated \<^verbatim>\<open>GarType\<close> and declared with the default
  \<^verbatim>\<open>""\<close>, a plain string; the attribute therefore holds either a member or a bare
  string.
\<close>

datatype data_type_attr = Member GarType | RawStr string

record Property =
  p_name :: string
  p_data_type :: data_type_attr
  p_is_primary :: bool
  p_is_nullable :: "bool option"

definition Property_default :: Property where
  "Property_default =
     \<lparr>p_name = '''', p_data_type = RawStr '''', p_is_primary = False, p_is_nullable = None\<rparr>"

fun Property_validator :: "pyval \<Rightarrow> Property option" where
  "Property_validator (PDict kvs) =
     do {
       n \<leftarrow> field kvs ''name'' '''' str_validator;
       d \<leftarrow> field kvs ''data_type'' (RawStr '''') (\<lambda>v. map_option Member (GarType_validator v));
       ip \<leftarrow> field kvs ''is_primary'' False bool_validator;
       nu \<leftarrow> field kvs ''is_nullable'' None optional_bool_validator;
       Some \<lparr>p_name = n, p_data_type = d, p_is_primary = ip, p_is_nullable = nu\<rparr>
     }"
| "Property_validator v = None"

text \<open>
  \<^verbatim>\<open>model_dump(mode="python")\<close>: the mapping of the field values as Python objects;
  an enumeration member stays a member.
\<close>

definition Property_dump :: "Property \<Rightarrow> pyval" where
  "Property_dump p =
     PDict [(''name'', PStr (p_name p)),
            (''data_type'', (case p_data_type p of
                               Member g \<Rightarrow> PEnum (GarMember g) | RawStr s \<Rightarrow> PStr s)),
            (''is_primary'', PBool (p_is_primary p)),
            (''is_nullable'', (case p_is_nullable p of None \<Rightarrow> PNone | Some b \<Rightarrow> PBool b))]"

record PropertyGroup =
  pg_prefix :: string
  pg_file_type :: FileType
  pg_properties :: "Property list"

definition PropertyGroup_default :: PropertyGroup where
  "PropertyGroup_default = \<lparr>pg_prefix = '''', pg_file_type = PARQUET, pg_properties = []\<rparr>"

fun PropertyGroup_validator :: "pyval \<Rightarrow> PropertyGroup option" where
  "PropertyGroup_validator (PDict kvs) =
     do {
       p \<leftarrow> field kvs ''prefix'' '''' str_validator;
       f \<leftarrow> field kvs ''file_type'' PARQUET FileType_validator;
       ps \<leftarrow> field kvs ''properties'' [] (list_validator Property_validator);
       Some \<lparr>pg_prefix = p, pg_file_type = f, pg_properties = ps\<rparr>
     }"
| "PropertyGroup_validator v = None"

definition PropertyGroup_dump :: "PropertyGroup \<Rightarrow> pyval" where
  "PropertyGroup_dump g =
     PDict [(''prefix'', PStr (pg_prefix g)),
            (''file_type'', PEnum (FileMember (pg_file_type g))),
            (''properties'', PList (map Property_dump (pg_properties g)))]"

record AdjList =
  al_ordered :: bool
  al_aligned_by :: AdjListType
  al_prefix :: string
  al_file_type :: FileType

definition AdjList_default :: AdjList where
  "AdjList_default =
     \<lparr>al_ordered = False, al_aligned_by = UNORDERED_BY_SOURCE, al_prefix = '''',
      al_file_type = PARQUET\<rparr>"

fun AdjList_validator :: "pyval \<Rightarrow> AdjList option" where
  "AdjList_validator (PDict kvs) =
     do {
       ord \<leftarrow> field kvs ''ordered'' False bool_validator;
       a \<leftarrow> field kvs ''aligned_by'' UNORDERED_BY_SOURCE AdjListType_validator;
       p \<leftarrow> field kvs ''prefix'' '''' str_validator;
       f \<leftarrow> field kvs ''file_type'' PARQUET FileType_validator;
       Some \<lparr>al_ordered = ord, al_aligned_by = a, al_prefix = p, al_file_type = f\<rparr>
     }"
| "AdjList_validator v = None"

definition AdjList_dump :: "AdjList \<Rightarrow> pyval" where
  "AdjList_dump a =
     PDict [(''ordered'', PBool (al_ordered a)),
            (''aligned_by'', PEnum (AdjMember (al_aligned_by a))),
            (''prefix'', PStr (al_prefix a)),
            (''file_type'', PEnum (FileMember (al_file_type a)))]"

record VertexInfo =
  vi_label :: string
  vi_chunk_size :: int
  vi_prefix :: string
  vi_property_groups :: "PropertyGroup list"
  vi_version :: string

definition VertexInfo_default :: VertexInfo where
  "VertexInfo_default =
     \<lparr>vi_label = '''', vi_chunk_size = 0, vi_prefix = '''', vi_property_groups = [],
      vi_version = ''''\<rparr>"

fun VertexInfo_validator :: "pyval \<Rightarrow> VertexInfo option" where
  "VertexInfo_validator (PDict kvs) =
     do {
       l \<leftarrow> field kvs ''label'' '''' str_validator;
       c \<leftarrow> field kvs ''chunk_size'' 0 int_validator;
       p \<leftarrow> field kvs ''prefix'' '''' str_validator;
       gs \<leftarrow> field kvs ''property_groups'' [] (list_validator PropertyGroup_validator);
       ver \<leftarrow> field kvs ''version'' '''' str_validator;
       Some \<lparr>vi_label = l, vi_chunk_size = c, vi_prefix = p, vi_property_groups = gs,
             vi_version = ver\<rparr>
     }"
| "VertexInfo_validator v = None"

definition VertexInfo_dump :: "VertexInfo \<Rightarrow> pyval" where
  "VertexInfo_dump m =
     PDict [(''label'', PStr (vi_label m)),
            (''chunk_size'', PInt (vi_chunk_size m)),
            (''prefix'', PStr (vi_prefix m)),
            (''property_groups'', PList (map PropertyGroup_dump (vi_property_groups m))),
            (''version'', PStr (vi_version m))]"

record EdgeInfo =
  ei_src_label :: string
  ei_edge_label :: string
  ei_dst_label :: string
  ei_chunk_size :: int
  ei_src_chunk_size :: int
  ei_dst_chunk_size :: int
  ei_directed :: bool
  ei_prefix :: string
  ei_adj_lists :: "AdjList list"
  ei_property_groups :: "PropertyGroup list"
  ei_version :: string

definition EdgeInfo_default :: EdgeInfo where
  "EdgeInfo_default =
     \<lparr>ei_src_label = '''', ei_edge_label = '''', ei_dst_label = '''', ei_chunk_size = 0,
      ei_src_chunk_size = 0, ei_dst_chunk_size = 0, ei_directed = False, ei_prefix = '''',
      ei_adj_lists = [], ei_property_groups = [], ei_version = ''''\<rparr>"

fun EdgeInfo_validator :: "pyval \<Rightarrow> EdgeInfo option" where
  "EdgeInfo_validator (PDict kvs) =
     do {
       s \<leftarrow> field kvs ''src_label'' '''' str_validator;
       e \<leftarrow> field kvs ''edge_label'' '''' str_validator;
       d \<leftarrow> field kvs ''dst_label'' '''' str_validator;
       c \<leftarrow> field kvs ''chunk_size'' 0 int_validator;
       sc \<leftarrow> field kvs ''src_chunk_size'' 0 int_validator;
       dc \<leftarrow> field kvs ''dst_chunk_size'' 0 int_validator;
       dir \<leftarrow> field kvs ''directed'' False bool_validator;
       p \<leftarrow> field kvs ''prefix'' '''' str_validator;
       als \<leftarrow> field kvs ''adj_lists'' [] (list_validator AdjList_validator);
       gs \<leftarrow> field kvs ''property_groups'' [] (list_validator PropertyGroup_validator);
       ver \<leftarrow> field kvs ''version'' '''' str_validator;
       Some \<lparr>ei_src_label = s, ei_edge_label = e, ei_dst_label = d, ei_chunk_size = c,
             ei_src_chunk_size = sc, ei_dst_chunk_size = dc, ei_directed = dir,
             ei_prefix = p, ei_adj_lists = als, ei_property_groups = gs, ei_version = ver\<rparr>
     }"
| "EdgeInfo_validator v = None"

definition EdgeInfo_dump :: "EdgeInfo \<Rightarrow> pyval" where
  "EdgeInfo_dump m =
     PDict [(''src_label'', PStr (ei_src_label m)),
            (''edge_label'', PStr (ei_edge_label m)),
            (''dst_label'', PStr (ei_dst_label m)),
            (''chunk_size'', PInt (ei_chunk_size m)),
            (''src_chunk_size'', PInt (ei_src_chunk_size m)),
            (''dst_chunk_size'', PInt (ei_dst_chunk_size m)),
            (''directed'', PBool (ei_directed m)),
            (''prefix'', PStr (ei_prefix m)),
            (''adj_lists'', PList (map AdjList_dump (ei_adj_lists m))),
            (''property_groups'', PList (map PropertyGroup_dump (ei_property_groups m))),
            (''version'', PStr (ei_version m))]"

record GraphInfo =
  gi_name :: string
  gi_prefix :: string
  gi_vertices :: "string list"
  gi_edges :: "string list"
  gi_version :: string

definition GraphInfo_default :: GraphInfo where
  "GraphInfo_default =
     \<lparr>gi_name = '''', gi_prefix = '''', gi_vertices = [], gi_edges = [], gi_version = ''''\<rparr>"

fun GraphInfo_validator :: "pyval \<Rightarrow> GraphInfo option" where
  "GraphInfo_validator (PDict kvs) =
     do {
       n \<leftarrow> field kvs ''name'' '''' str_validator;
       p \<leftarrow> field kvs ''prefix'' '''' str_validator;
       vs \<leftarrow> field kvs ''vertices'' [] (list_validator str_validator);
       es \<leftarrow> field kvs ''edges'' [] (list_validator str_validator);
       ver \<leftarrow> field kvs ''version'' '''' str_validator;
       Some \<lparr>gi_name = n, gi_prefix = p, gi_vertices = vs, gi_edges = es, gi_version = ver\<rparr>
     }"
| "GraphInfo_validator v = None"

definition GraphInfo_dump :: "GraphInfo \<Rightarrow> pyval" where
  "GraphInfo_dump m =
     PDict [(''name'', PStr (gi_name m)),
            (''prefix'', PStr (gi_prefix m)),
            (''vertices'', PList (map PStr (gi_vertices m))),
            (''edges'', PList (map PStr (gi_edges m))),
            (''version'', PStr (gi_version m))]"

text \<open>
  \<^verbatim>\<open>YAMLSerializable.from_yaml\<close> and \<^verbatim>\<open>to_yaml\<close>; the class is given by its
  validator and the instance by its dump.
\<close>

definition from_yaml ::
  "(string \<Rightarrow> pyval option) \<Rightarrow> (pyval \<Rightarrow> 'm option) \<Rightarrow> store \<Rightarrow> string \<Rightarrow> error + 'm" where
  "from_yaml load cls st file_path = read_yaml_from_any load (validate cls) st file_path"

definition to_yaml ::
  "(pyval \<Rightarrow> string) \<Rightarrow> ('m \<Rightarrow> pyval) \<Rightarrow> store \<Rightarrow> string \<Rightarrow> 'm \<Rightarrow> error + store" where
  "to_yaml emit dump st file_path self = write_yaml_to_any emit st file_path (dump self)"

text \<open>
  The codec of section 4.2 as the code composes it, without the store:
  \<^verbatim>\<open>yaml.safe_dump(model.model_dump(mode="python"))\<close> and
  \<^verbatim>\<open>model.validate(yaml.safe_load(text))\<close>.
\<close>

definition encode :: "(pyval \<Rightarrow> string) \<Rightarrow> ('m \<Rightarrow> pyval) \<Rightarrow> 'm \<Rightarrow> error + string" where
  "encode emit dump m = safe_dump emit (dump m)"

definition decode ::
  "(string \<Rightarrow> pyval option) \<Rightarrow> (pyval \<Rightarrow> 'm option) \<Rightarrow> string \<Rightarrow> error + 'm" where
  "decode load cls text =
     (case safe_load load text of Inl e \<Rightarrow> Inl e | Inr pydict \<Rightarrow> validate cls pydict)"

text \<open>
  An instance has valid field values when every enumeration field holds a member;
  only \<^verbatim>\<open>Property.data_type\<close> can hold anything else.
\<close>

definition Property_valid :: "Property \<Rightarrow> bool" where
  "Property_valid p = (case p_data_type p of Member g \<Rightarrow> True | RawStr s \<Rightarrow> False)"

definition PropertyGroup_valid :: "PropertyGroup \<Rightarrow> bool" where
  "PropertyGroup_valid g = list_all Property_valid (pg_properties g)"

definition VertexInfo_valid :: "VertexInfo \<Rightarrow> bool" where
  "VertexInfo_valid m = list_all PropertyGroup_valid (vi_property_groups m)"

definition EdgeInfo_valid :: "EdgeInfo \<Rightarrow> bool" where
  "EdgeInfo_valid m = list_all PropertyGroup_valid (ei_property_groups m)"


subsection \<open>Example documents\<close>

text \<open>
  The example of the specification, \<^verbatim>\<open>GraphInfo(name="social", prefix="graph/",
  vertices=["person"], edges=["knows"], version="v1")\<close>, a second graph that differs
  in its version, and the text \<^verbatim>\<open>yaml.safe_dump\<close> prints for each (keys sorted,
  block style, a final newline).
\<close>

definition social :: GraphInfo where
  "social =
     \<lparr>gi_name = ''social'', gi_prefix = ''graph/'', gi_vertices = [''person''],
      gi_edges = [''knows''], gi_version = ''v1''\<rparr>"

definition social_yaml :: string where
  "social_yaml =
     join_nl [''edges:'', ''- knows'', ''name: social'', ''prefix: graph/'', ''version: v1'',
              ''vertices:'', ''- person'', '''']"

definition social_v2 :: GraphInfo where
  "social_v2 =
     \<lparr>gi_name = ''social'', gi_prefix = ''graph/'', gi_vertices = [''person''],
      gi_edges = [''knows''], gi_version = ''v2''\<rparr>"

definition social_v2_yaml :: string where
  "social_v2_yaml =
     join_nl [''edges:'', ''- knows'', ''name: social'', ''prefix: graph/'', ''version: v2'',
              ''vertices:'', ''- person'', '''']"

text \<open>A vertex document with one property whose \<^verbatim>\<open>data_type\<close> is no literal.\<close>

definition invalid_property_yaml :: string where
  "invalid_property_yaml = join_nl [''data_type: invalid'', ''name: id'', '''']"

definition invalid_vertex_yaml :: string where
  "invalid_vertex_yaml =
     join_nl [''label: person'', ''property_groups:'', ''- file_type: parquet'',
              ''  properties:'', ''  - data_type: invalid'', ''    name: id'', '''']"

text \<open>A vertex document with a negative chunk size, and one that gives a label only.\<close>

definition negative_chunk_yaml :: string where
  "negative_chunk_yaml = join_nl [''chunk_size: -1'', ''label: person'', '''']"

definition label_only_yaml :: string where
  "label_only_yaml = join_nl [''label: person'', '''']"

text \<open>A Property document that gives a name and no \<^verbatim>\<open>data_type\<close>.\<close>

definition name_only_yaml :: string where
  "name_only_yaml = join_nl [''name: id'', '''']"

text \<open>
  PyYAML at these documents: \<^verbatim>\<open>safe_load\<close> returns a dict with the keys in the
  order of the text, and \<^verbatim>\<open>None\<close> for the empty text; the printer is only needed
  at the two graphs.
\<close>

definition load_table :: "(string \<times> pyval) list" where
  "load_table =
     [('''', PNone),
      (social_yaml,
       PDict [(''edges'', PList [PStr ''knows'']), (''name'', PStr ''social''),
              (''prefix'', PStr ''graph/''), (''version'', PStr ''v1''),
              (''vertices'', PList [PStr ''person''])]),
      (social_v2_yaml,
       PDict [(''edges'', PList [PStr ''knows'']), (''name'', PStr ''social''),
              (''prefix'', PStr ''graph/''), (''version'', PStr ''v2''),
              (''vertices'', PList [PStr ''person''])]),
      (invalid_property_yaml,
       PDict [(''data_type'', PStr ''invalid''), (''name'', PStr ''id'')]),
      (invalid_vertex_yaml,
       PDict [(''label'', PStr ''person''),
              (''property_groups'',
               PList [PDict [(''file_type'', PStr ''parquet''),
                             (''properties'',
                              PList [PDict [(''data_type'', PStr ''invalid''),
                                            (''name'', PStr ''id'')]])]])]),
      (negative_chunk_yaml, PDict [(''chunk_size'', PInt (- 1)), (''label'', PStr ''person'')]),
      (label_only_yaml, PDict [(''label'', PStr ''person'')]),
      (name_only_yaml, PDict [(''name'', PStr ''id'')])]"

definition load_examples :: "string \<Rightarrow> pyval option" where
  "load_examples text = map_of load_table text"

definition emit_examples :: "pyval \<Rightarrow> string" where
  "emit_examples v =
     (if v = GraphInfo_dump social then social_yaml
      else if v = GraphInfo_dump social_v2 then social_v2_yaml
      else [])"

text \<open>
  The mapping without the keys in \<open>S\<close>: the document that leaves these fields out.
\<close>

definition omit :: "string set \<Rightarrow> (string \<times> pyval) list \<Rightarrow> (string \<times> pyval) list" where
  "omit S kvs = filter (\<lambda>kv. fst kv \<notin> S) kvs"

text \<open>
  A vertex type with one property group, which holds members of \<^verbatim>\<open>FileType\<close> and
  \<^verbatim>\<open>GarType\<close> and the three states of \<^verbatim>\<open>is_nullable\<close>.
\<close>

definition person :: VertexInfo where
  "person =
     \<lparr>vi_label = ''person'', vi_chunk_size = 100, vi_prefix = ''vertex/person/'',
      vi_property_groups =
        [\<lparr>pg_prefix = ''id_name/'', pg_file_type = CSV,
          pg_properties =
            [\<lparr>p_name = ''id'', p_data_type = Member INT64, p_is_primary = True,
              p_is_nullable = Some False\<rparr>,
             \<lparr>p_name = ''name'', p_data_type = Member STRING, p_is_primary = False,
              p_is_nullable = Some True\<rparr>,
             \<lparr>p_name = ''age'', p_data_type = Member INT32, p_is_primary = False,
              p_is_nullable = None\<rparr>]\<rparr>],
      vi_version = ''gar/v1''\<rparr>"

section \<open>Properties\<close>

subsection \<open>Lines and records\<close>

lemma split_nl_not_Nil: "split_nl s \<noteq> []"
  by (induction s) (auto split: list.splits)

lemma join_split_nl: "join_nl (split_nl s) = s"
proof (induction s)
  case Nil
  show ?case by simp
next
  case (Cons c cs)
  obtain l ls where sp: "split_nl cs = l # ls"
    using split_nl_not_Nil [of cs] by (cases "split_nl cs") auto
  show ?case
  proof (cases "c = CHR 0x0A")
    case True
    with sp Cons show ?thesis by simp
  next
    case False
    with sp Cons show ?thesis by (cases ls) auto
  qed
qed

lemma split_nl_line: "CHR 0x0A \<notin> set l \<Longrightarrow> split_nl l = [l]"
  by (induction l) auto

lemma split_nl_append:
  "CHR 0x0A \<notin> set l \<Longrightarrow> split_nl (l @ CHR 0x0A # s) = l # split_nl s"
  by (induction l) auto

lemma split_join_nl:
  "ls \<noteq> [] \<Longrightarrow> \<forall>l \<in> set ls. CHR 0x0A \<notin> set l \<Longrightarrow> split_nl (join_nl ls) = ls"
proof (induction ls rule: join_nl.induct)
  case 1
  then show ?case by simp
next
  case (2 l)
  then show ?case by (simp add: split_nl_line)
next
  case (3 l m ls)
  then show ?case by (simp add: split_nl_append)
qed

text \<open>
  The rows the code builds: one row per line, and in the row of a line one column
  per character of the line.
\<close>

lemma length_raw_text_rows: "length (raw_text_rows text) = length (split_nl text)"
  by (simp add: raw_text_rows_def)

lemma raw_text_rows_columns:
  "i < length (split_nl text) \<Longrightarrow>
     length (raw_text_rows text ! i) = length (split_nl text ! i)"
  by (simp add: raw_text_rows_def tuple_of_str_def)

text \<open>
  The store keeps what the write path of the specification submits, in order, and a
  later write replaces an earlier one.
\<close>

lemma save_put_records_spec:
  "save_text_overwrite st location (put_records_spec text) =
     Inr (st(location \<mapsto> split_nl text))"
proof -
  have "concat (map (\<lambda>l. [l]) ls) = ls" for ls :: "string list"
    by (induction ls) auto
  then show ?thesis
    by (simp add: save_text_overwrite_def put_records_spec_def list_all_iff)
qed

lemma save_replaces:
  "save_text_overwrite st location df1 = Inr st1 \<Longrightarrow>
   save_text_overwrite st1 location df2 = Inr st2 \<Longrightarrow>
   read_text st2 location = Inr (concat df2)"
  by (auto simp: save_text_overwrite_def read_text_def split: if_splits)

lemma social_yaml_lines:
  "split_nl social_yaml =
     [''edges:'', ''- knows'', ''name: social'', ''prefix: graph/'', ''version: v1'',
      ''vertices:'', ''- person'', '''']"
  unfolding social_yaml_def by (rule split_join_nl) simp_all

text \<open>
  C1 (the write path persists each line as one record with a single text column):
  the code builds the record of a line with \<^verbatim>\<open>tuple(v)\<close>, which has one column
  per character.  For the text of the example graph the rows submitted have 6, 7, 12,
  14, 11, 9, 8 and 0 columns, where the write path of the specification submits eight
  rows of one column, and Spark's text writer refuses the frame.
\<close>

theorem C1_rows_have_one_column_per_character:
  "map length (raw_text_rows social_yaml) = [6, 7, 12, 14, 11, 9, 8, 0]
   \<and> hd (raw_text_rows social_yaml) = [''e'', ''d'', ''g'', ''e'', ''s'', '':'']
   \<and> map length (put_records_spec social_yaml) = [1, 1, 1, 1, 1, 1, 1, 1]
   \<and> write_yaml_to_any emit_examples Map.empty ''graph.yml'' (GraphInfo_dump social)
       = Inl TextSchemaError"
proof -
  have rep: "representable (GraphInfo_dump social)"
    by (simp add: GraphInfo_dump_def social_def)
  have emit: "emit_examples (GraphInfo_dump social) = social_yaml"
    by (simp add: emit_examples_def)
  show ?thesis
    by (simp add: raw_text_rows_def put_records_spec_def social_yaml_lines tuple_of_str_def
        write_yaml_to_any_def safe_dump_def rep emit createDataFrame_def
        save_text_overwrite_def)
qed

text \<open>
  C4 (the read path fetches all records, takes the text column of each and joins them
  with newlines into one document before decoding): the rows at the location are
  joined by \<^verbatim>\<open>"\n".join\<close> and the whole joined text is what is parsed and
  validated; when no record contains a newline, the lines of the joined document are
  the records, in order.
\<close>

theorem C4_read_joins_all_records:
  "st location = Some recs \<Longrightarrow>
     read_text st location = Inr recs
     \<and> read_yaml_from_any load (validate cls) st location
         = (case load (join_nl recs) of
              None \<Rightarrow> Inl ParseError
            | Some pydict \<Rightarrow> validate cls pydict)
     \<and> from_yaml load cls st location = decode load cls (join_nl recs)
     \<and> (recs \<noteq> [] \<and> (\<forall>r \<in> set recs. CHR 0x0A \<notin> set r)
          \<longrightarrow> split_nl (join_nl recs) = recs)"
  by (simp add: read_text_def read_yaml_from_any_def from_yaml_def decode_def safe_load_def
      split_join_nl split: option.splits)

theorem C4_read_joins_all_records_witness:
  "from_yaml load_examples GraphInfo_validator
     (Map.empty(''graph.yml'' \<mapsto> split_nl social_yaml)) ''graph.yml''
   = decode load_examples GraphInfo_validator social_yaml
   \<and> decode load_examples GraphInfo_validator social_yaml = Inr social"
proof -
  have "from_yaml load_examples GraphInfo_validator
          (Map.empty(''graph.yml'' \<mapsto> split_nl social_yaml)) ''graph.yml''
        = decode load_examples GraphInfo_validator social_yaml"
    using C4_read_joins_all_records
      [of "Map.empty(''graph.yml'' \<mapsto> split_nl social_yaml)" "''graph.yml''"
          "split_nl social_yaml" load_examples GraphInfo_validator]
    by (simp add: join_split_nl)
  moreover have "decode load_examples GraphInfo_validator social_yaml = Inr social"
    by (simp add: decode_def safe_load_def load_examples_def load_table_def validate_def
        field_def social_def social_yaml_def)
  ultimately show ?thesis by simp
qed

subsection \<open>Enumeration literals\<close>

lemma GarType_of_value: "GarType_of (GarType_value g) = Some g"
  by (cases g) (simp_all add: GarType_of_def GarType_members_def)

lemma FileType_of_value: "FileType_of (FileType_value g) = Some g"
  by (cases g) (simp_all add: FileType_of_def FileType_members_def)

lemma AdjListType_of_value: "AdjListType_of (AdjListType_value g) = Some g"
  by (cases g) (simp_all add: AdjListType_of_def AdjListType_members_def)

lemma GarType_of_None: "\<forall>g. s \<noteq> GarType_value g \<Longrightarrow> GarType_of s = None"
  by (auto simp: GarType_of_def find_None_iff)

lemma FileType_of_None: "\<forall>g. s \<noteq> FileType_value g \<Longrightarrow> FileType_of s = None"
  by (auto simp: FileType_of_def find_None_iff)

lemma AdjListType_of_None: "\<forall>g. s \<noteq> AdjListType_value g \<Longrightarrow> AdjListType_of s = None"
  by (auto simp: AdjListType_of_def find_None_iff)

lemma GarType_validator_outside:
  "\<forall>m. v \<noteq> PEnum m \<Longrightarrow> \<forall>g. v \<noteq> PStr (GarType_value g) \<Longrightarrow> GarType_validator v = None"
  by (cases v) (auto simp: GarType_of_None)

lemma FileType_validator_outside:
  "\<forall>m. v \<noteq> PEnum m \<Longrightarrow> \<forall>g. v \<noteq> PStr (FileType_value g) \<Longrightarrow> FileType_validator v = None"
  by (cases v) (auto simp: FileType_of_None)

lemma AdjListType_validator_outside:
  "\<forall>m. v \<noteq> PEnum m \<Longrightarrow> \<forall>g. v \<noteq> PStr (AdjListType_value g) \<Longrightarrow>
     AdjListType_validator v = None"
  by (cases v) (auto simp: AdjListType_of_None)

subsection \<open>Fields of a mapping\<close>

lemma field_absent: "map_of kvs key = None \<Longrightarrow> field kvs key dflt validator = Some dflt"
  by (simp add: field_def)

lemma field_present: "map_of kvs key = Some v \<Longrightarrow> field kvs key dflt validator = validator v"
  by (simp add: field_def)

lemma field_Cons:
  "field ((k, v) # kvs) key dflt validator =
     (if key = k then validator v else field kvs key dflt validator)"
  by (simp add: field_def)

lemma map_of_omit:
  "map_of (omit S kvs) key = (if key \<in> S then None else map_of kvs key)"
  by (induction kvs) (auto simp: omit_def)

lemma field_omit:
  "field (omit S kvs) key dflt validator =
     (if key \<in> S then Some dflt else field kvs key dflt validator)"
  by (simp add: field_def map_of_omit)

lemma those_map_None: "x \<in> set xs \<Longrightarrow> item x = None \<Longrightarrow> those (map item xs) = None"
  by (induction xs) (auto split: option.splits)

lemma those_map_dump:
  "\<forall>x \<in> set xs. item (dump x) = Some x \<Longrightarrow> those (map item (map dump xs)) = Some xs"
  by (induction xs) auto

lemma those_map_comp_dump:
  "\<forall>x \<in> set xs. item (dump x) = Some x \<Longrightarrow> those (map (item \<circ> dump) xs) = Some xs"
  by (induction xs) auto

lemma list_validator_None:
  "x \<in> set xs \<Longrightarrow> item x = None \<Longrightarrow> list_validator item (PList xs) = None"
  by (simp add: those_map_None)

text \<open>What it takes for a mapping to be accepted, field by field.\<close>

lemma Property_validator_Some:
  "Property_validator (PDict kvs) = Some p \<longleftrightarrow>
     field kvs ''name'' '''' str_validator = Some (p_name p)
     \<and> field kvs ''data_type'' (RawStr '''') (\<lambda>v. map_option Member (GarType_validator v))
         = Some (p_data_type p)
     \<and> field kvs ''is_primary'' False bool_validator = Some (p_is_primary p)
     \<and> field kvs ''is_nullable'' None optional_bool_validator = Some (p_is_nullable p)"
  by (cases p) (auto simp: bind_eq_Some_conv)

lemma PropertyGroup_validator_Some:
  "PropertyGroup_validator (PDict kvs) = Some g \<longleftrightarrow>
     field kvs ''prefix'' '''' str_validator = Some (pg_prefix g)
     \<and> field kvs ''file_type'' PARQUET FileType_validator = Some (pg_file_type g)
     \<and> field kvs ''properties'' [] (list_validator Property_validator)
         = Some (pg_properties g)"
  by (cases g) (auto simp: bind_eq_Some_conv)

lemma AdjList_validator_Some:
  "AdjList_validator (PDict kvs) = Some a \<longleftrightarrow>
     field kvs ''ordered'' False bool_validator = Some (al_ordered a)
     \<and> field kvs ''aligned_by'' UNORDERED_BY_SOURCE AdjListType_validator
         = Some (al_aligned_by a)
     \<and> field kvs ''prefix'' '''' str_validator = Some (al_prefix a)
     \<and> field kvs ''file_type'' PARQUET FileType_validator = Some (al_file_type a)"
  by (cases a) (auto simp: bind_eq_Some_conv)

lemma VertexInfo_validator_Some:
  "VertexInfo_validator (PDict kvs) = Some m \<longleftrightarrow>
     field kvs ''label'' '''' str_validator = Some (vi_label m)
     \<and> field kvs ''chunk_size'' 0 int_validator = Some (vi_chunk_size m)
     \<and> field kvs ''prefix'' '''' str_validator = Some (vi_prefix m)
     \<and> field kvs ''property_groups'' [] (list_validator PropertyGroup_validator)
         = Some (vi_property_groups m)
     \<and> field kvs ''version'' '''' str_validator = Some (vi_version m)"
  by (cases m) (auto simp: bind_eq_Some_conv)

lemma EdgeInfo_validator_Some:
  "EdgeInfo_validator (PDict kvs) = Some m \<longleftrightarrow>
     field kvs ''src_label'' '''' str_validator = Some (ei_src_label m)
     \<and> field kvs ''edge_label'' '''' str_validator = Some (ei_edge_label m)
     \<and> field kvs ''dst_label'' '''' str_validator = Some (ei_dst_label m)
     \<and> field kvs ''chunk_size'' 0 int_validator = Some (ei_chunk_size m)
     \<and> field kvs ''src_chunk_size'' 0 int_validator = Some (ei_src_chunk_size m)
     \<and> field kvs ''dst_chunk_size'' 0 int_validator = Some (ei_dst_chunk_size m)
     \<and> field kvs ''directed'' False bool_validator = Some (ei_directed m)
     \<and> field kvs ''prefix'' '''' str_validator = Some (ei_prefix m)
     \<and> field kvs ''adj_lists'' [] (list_validator AdjList_validator) = Some (ei_adj_lists m)
     \<and> field kvs ''property_groups'' [] (list_validator PropertyGroup_validator)
         = Some (ei_property_groups m)
     \<and> field kvs ''version'' '''' str_validator = Some (ei_version m)"
  by (cases m) (auto simp: bind_eq_Some_conv)

lemma GraphInfo_validator_Some:
  "GraphInfo_validator (PDict kvs) = Some m \<longleftrightarrow>
     field kvs ''name'' '''' str_validator = Some (gi_name m)
     \<and> field kvs ''prefix'' '''' str_validator = Some (gi_prefix m)
     \<and> field kvs ''vertices'' [] (list_validator str_validator) = Some (gi_vertices m)
     \<and> field kvs ''edges'' [] (list_validator str_validator) = Some (gi_edges m)
     \<and> field kvs ''version'' '''' str_validator = Some (gi_version m)"
  by (cases m) (auto simp: bind_eq_Some_conv)

lemma validate_Inr: "validate cls v = Inr m \<longleftrightarrow> cls v = Some m"
  by (simp add: validate_def split: option.splits)

lemma validate_Inl: "validate cls v = Inl e \<longleftrightarrow> cls v = None \<and> e = SchemaValidationError"
  by (auto simp: validate_def split: option.splits)

lemma decode_loaded: "load text = Some v \<Longrightarrow> decode load cls text = validate cls v"
  by (simp add: decode_def safe_load_def)

lemma decode_rejected:
  "load text = Some v \<Longrightarrow> cls v = None \<Longrightarrow> decode load cls text = Inl SchemaValidationError"
  by (simp add: decode_loaded validate_def)

subsection \<open>Rejection of values outside an enumeration\<close>

lemma Property_rejects_data_type:
  assumes "map_of kvs ''data_type'' = Some v" and "GarType_validator v = None"
  shows "Property_validator (PDict kvs) = None"
proof (cases "Property_validator (PDict kvs)")
  case None
  then show ?thesis .
next
  case (Some p)
  then have "field kvs ''data_type'' (RawStr '''') (\<lambda>v. map_option Member (GarType_validator v))
               = Some (p_data_type p)"
    by (simp only: Property_validator_Some)
  with assms show ?thesis by (simp add: field_present)
qed

lemma PropertyGroup_rejects_file_type:
  assumes "map_of kvs ''file_type'' = Some v" and "FileType_validator v = None"
  shows "PropertyGroup_validator (PDict kvs) = None"
proof (cases "PropertyGroup_validator (PDict kvs)")
  case None
  then show ?thesis .
next
  case (Some g)
  then have "field kvs ''file_type'' PARQUET FileType_validator = Some (pg_file_type g)"
    by (simp only: PropertyGroup_validator_Some)
  with assms show ?thesis by (simp add: field_present)
qed

lemma PropertyGroup_rejects_property:
  assumes "map_of kvs ''properties'' = Some (PList ps)"
    and "p \<in> set ps" and "Property_validator p = None"
  shows "PropertyGroup_validator (PDict kvs) = None"
proof (cases "PropertyGroup_validator (PDict kvs)")
  case None
  then show ?thesis .
next
  case (Some g)
  then have "field kvs ''properties'' [] (list_validator Property_validator)
               = Some (pg_properties g)"
    by (simp only: PropertyGroup_validator_Some)
  with assms show ?thesis by (simp add: field_present those_map_None)
qed

lemma AdjList_rejects_file_type:
  assumes "map_of kvs ''file_type'' = Some v" and "FileType_validator v = None"
  shows "AdjList_validator (PDict kvs) = None"
proof (cases "AdjList_validator (PDict kvs)")
  case None
  then show ?thesis .
next
  case (Some a)
  then have "field kvs ''file_type'' PARQUET FileType_validator = Some (al_file_type a)"
    by (simp only: AdjList_validator_Some)
  with assms show ?thesis by (simp add: field_present)
qed

lemma AdjList_rejects_aligned_by:
  assumes "map_of kvs ''aligned_by'' = Some v" and "AdjListType_validator v = None"
  shows "AdjList_validator (PDict kvs) = None"
proof (cases "AdjList_validator (PDict kvs)")
  case None
  then show ?thesis .
next
  case (Some a)
  then have "field kvs ''aligned_by'' UNORDERED_BY_SOURCE AdjListType_validator
               = Some (al_aligned_by a)"
    by (simp only: AdjList_validator_Some)
  with assms show ?thesis by (simp add: field_present)
qed

lemma VertexInfo_rejects_group:
  assumes "map_of kvs ''property_groups'' = Some (PList gs)"
    and "g \<in> set gs" and "PropertyGroup_validator g = None"
  shows "VertexInfo_validator (PDict kvs) = None"
proof (cases "VertexInfo_validator (PDict kvs)")
  case None
  then show ?thesis .
next
  case (Some m)
  then have "field kvs ''property_groups'' [] (list_validator PropertyGroup_validator)
               = Some (vi_property_groups m)"
    by (simp only: VertexInfo_validator_Some)
  with assms show ?thesis by (simp add: field_present those_map_None)
qed

lemma EdgeInfo_rejects_group:
  assumes "map_of kvs ''property_groups'' = Some (PList gs)"
    and "g \<in> set gs" and "PropertyGroup_validator g = None"
  shows "EdgeInfo_validator (PDict kvs) = None"
proof (cases "EdgeInfo_validator (PDict kvs)")
  case None
  then show ?thesis .
next
  case (Some m)
  then have "field kvs ''property_groups'' [] (list_validator PropertyGroup_validator)
               = Some (ei_property_groups m)"
    by (simp only: EdgeInfo_validator_Some)
  with assms show ?thesis by (simp add: field_present those_map_None)
qed

lemma EdgeInfo_rejects_adj_list:
  assumes "map_of kvs ''adj_lists'' = Some (PList as)"
    and "a \<in> set as" and "AdjList_validator a = None"
  shows "EdgeInfo_validator (PDict kvs) = None"
proof (cases "EdgeInfo_validator (PDict kvs)")
  case None
  then show ?thesis .
next
  case (Some m)
  then have "field kvs ''adj_lists'' [] (list_validator AdjList_validator)
               = Some (ei_adj_lists m)"
    by (simp only: EdgeInfo_validator_Some)
  with assms show ?thesis by (simp add: field_present those_map_None)
qed

text \<open>
  C6 (a document with an enumeration field whose value is outside the closed set of
  literals is rejected with a schema validation error, and no instance is produced).
  Let the text parse to the mapping \<open>kvs\<close>.  A value is outside an enumeration when
  it is neither a member object nor the string of one of the literals.  Then a
  \<^verbatim>\<open>data_type\<close> outside \<^verbatim>\<open>GarType\<close> rejects a Property document, a
  \<^verbatim>\<open>file_type\<close> outside \<^verbatim>\<open>FileType\<close> rejects a PropertyGroup and an AdjList
  document, an \<^verbatim>\<open>aligned_by\<close> outside \<^verbatim>\<open>AdjListType\<close> rejects an AdjList
  document, and a rejected element of \<^verbatim>\<open>properties\<close>, \<^verbatim>\<open>property_groups\<close> or
  \<^verbatim>\<open>adj_lists\<close> rejects the document that contains it, up to the top-level
  VertexInfo and EdgeInfo documents.
\<close>

theorem C6_value_outside_enumeration_is_rejected:
  "load text = Some (PDict kvs) \<Longrightarrow>
     (\<forall>v. map_of kvs ''data_type'' = Some v
           \<and> (\<forall>m. v \<noteq> PEnum m) \<and> (\<forall>g. v \<noteq> PStr (GarType_value g))
        \<longrightarrow> decode load Property_validator text = Inl SchemaValidationError)
   \<and> (\<forall>v. map_of kvs ''file_type'' = Some v
           \<and> (\<forall>m. v \<noteq> PEnum m) \<and> (\<forall>g. v \<noteq> PStr (FileType_value g))
        \<longrightarrow> decode load PropertyGroup_validator text = Inl SchemaValidationError
            \<and> decode load AdjList_validator text = Inl SchemaValidationError)
   \<and> (\<forall>v. map_of kvs ''aligned_by'' = Some v
           \<and> (\<forall>m. v \<noteq> PEnum m) \<and> (\<forall>g. v \<noteq> PStr (AdjListType_value g))
        \<longrightarrow> decode load AdjList_validator text = Inl SchemaValidationError)
   \<and> (\<forall>ps p. map_of kvs ''properties'' = Some (PList ps) \<and> p \<in> set ps
           \<and> validate Property_validator p = Inl SchemaValidationError
        \<longrightarrow> decode load PropertyGroup_validator text = Inl SchemaValidationError)
   \<and> (\<forall>gs g. map_of kvs ''property_groups'' = Some (PList gs) \<and> g \<in> set gs
           \<and> validate PropertyGroup_validator g = Inl SchemaValidationError
        \<longrightarrow> decode load VertexInfo_validator text = Inl SchemaValidationError
            \<and> decode load EdgeInfo_validator text = Inl SchemaValidationError)
   \<and> (\<forall>as a. map_of kvs ''adj_lists'' = Some (PList as) \<and> a \<in> set as
           \<and> validate AdjList_validator a = Inl SchemaValidationError
        \<longrightarrow> decode load EdgeInfo_validator text = Inl SchemaValidationError)"
proof -
  assume L: "load text = Some (PDict kvs)"
  note rej = decode_rejected [of load "text" "PDict kvs", OF L]
  have c1: "\<forall>v. map_of kvs ''data_type'' = Some v
           \<and> (\<forall>m. v \<noteq> PEnum m) \<and> (\<forall>g. v \<noteq> PStr (GarType_value g))
        \<longrightarrow> decode load Property_validator text = Inl SchemaValidationError"
    by (blast intro: rej Property_rejects_data_type GarType_validator_outside)
  have c2: "\<forall>v. map_of kvs ''file_type'' = Some v
           \<and> (\<forall>m. v \<noteq> PEnum m) \<and> (\<forall>g. v \<noteq> PStr (FileType_value g))
        \<longrightarrow> decode load PropertyGroup_validator text = Inl SchemaValidationError
            \<and> decode load AdjList_validator text = Inl SchemaValidationError"
    by (blast intro: rej PropertyGroup_rejects_file_type AdjList_rejects_file_type
        FileType_validator_outside)
  have c3: "\<forall>v. map_of kvs ''aligned_by'' = Some v
           \<and> (\<forall>m. v \<noteq> PEnum m) \<and> (\<forall>g. v \<noteq> PStr (AdjListType_value g))
        \<longrightarrow> decode load AdjList_validator text = Inl SchemaValidationError"
    by (blast intro: rej AdjList_rejects_aligned_by AdjListType_validator_outside)
  have c4: "\<forall>ps p. map_of kvs ''properties'' = Some (PList ps) \<and> p \<in> set ps
           \<and> validate Property_validator p = Inl SchemaValidationError
        \<longrightarrow> decode load PropertyGroup_validator text = Inl SchemaValidationError"
    unfolding validate_Inl by (blast intro: rej PropertyGroup_rejects_property)
  have c5: "\<forall>gs g. map_of kvs ''property_groups'' = Some (PList gs) \<and> g \<in> set gs
           \<and> validate PropertyGroup_validator g = Inl SchemaValidationError
        \<longrightarrow> decode load VertexInfo_validator text = Inl SchemaValidationError
            \<and> decode load EdgeInfo_validator text = Inl SchemaValidationError"
    unfolding validate_Inl by (blast intro: rej VertexInfo_rejects_group EdgeInfo_rejects_group)
  have c6: "\<forall>as a. map_of kvs ''adj_lists'' = Some (PList as) \<and> a \<in> set as
           \<and> validate AdjList_validator a = Inl SchemaValidationError
        \<longrightarrow> decode load EdgeInfo_validator text = Inl SchemaValidationError"
    unfolding validate_Inl by (blast intro: rej EdgeInfo_rejects_adj_list)
  from c1 c2 c3 c4 c5 c6 show ?thesis by blast
qed

theorem C6_value_outside_enumeration_is_rejected_witness:
  "decode load_examples Property_validator invalid_property_yaml = Inl SchemaValidationError
   \<and> decode load_examples VertexInfo_validator invalid_vertex_yaml
       = Inl SchemaValidationError"
proof -
  let ?p = "PDict [(''data_type'', PStr ''invalid''), (''name'', PStr ''id'')]"
  let ?g = "PDict [(''file_type'', PStr ''parquet''), (''properties'', PList [?p])]"
  let ?kvs = "[(''label'', PStr ''person''), (''property_groups'', PList [?g])]"
  have out: "\<forall>g. PStr ''invalid'' \<noteq> PStr (GarType_value g)"
  proof
    fix g show "PStr ''invalid'' \<noteq> PStr (GarType_value g)" by (cases g) simp_all
  qed
  have l1: "load_examples invalid_property_yaml
              = Some (PDict [(''data_type'', PStr ''invalid''), (''name'', PStr ''id'')])"
    by (simp add: load_examples_def load_table_def invalid_property_yaml_def social_yaml_def
        social_v2_yaml_def)
  have l2: "load_examples invalid_vertex_yaml = Some (PDict ?kvs)"
    by (simp add: load_examples_def load_table_def invalid_vertex_yaml_def social_yaml_def
        social_v2_yaml_def invalid_property_yaml_def)
  have r1: "decode load_examples Property_validator invalid_property_yaml
              = Inl SchemaValidationError"
    using C6_value_outside_enumeration_is_rejected
        [of load_examples invalid_property_yaml
            "[(''data_type'', PStr ''invalid''), (''name'', PStr ''id'')]", OF l1] out
    by simp
  have pg: "validate PropertyGroup_validator ?g = Inl SchemaValidationError"
    by (simp add: validate_def field_def GarType_of_def GarType_members_def
        FileType_of_def FileType_members_def)
  have r2: "decode load_examples VertexInfo_validator invalid_vertex_yaml
              = Inl SchemaValidationError"
    using C6_value_outside_enumeration_is_rejected
        [of load_examples invalid_vertex_yaml ?kvs, OF l2] pg
    by simp
  from r1 r2 show ?thesis by simp
qed

subsection \<open>Chunk sizes\<close>

text \<open>
  C7 (a negative chunk size is rejected, and accepted instances have non-negative
  chunk sizes) fails on the code: the chunk-size fields are annotated \<^verbatim>\<open>int\<close> with
  no bound, so the document \<^verbatim>\<open>chunk_size: -1\<close> decodes, and so does a direct
  construction with negative sizes.
\<close>

theorem C7_negative_chunk_size_counterexample:
  "decode load_examples VertexInfo_validator negative_chunk_yaml
     = Inr (VertexInfo_default\<lparr>vi_label := ''person'', vi_chunk_size := - 1\<rparr>)
   \<and> vi_chunk_size (VertexInfo_default\<lparr>vi_label := ''person'', vi_chunk_size := - 1\<rparr>) < 0
   \<and> validate EdgeInfo_validator
         (PDict [(''chunk_size'', PInt (- 3)), (''src_chunk_size'', PInt (- 5)),
                 (''dst_chunk_size'', PInt (- 7))])
       = Inr (EdgeInfo_default\<lparr>ei_chunk_size := - 3, ei_src_chunk_size := - 5,
                               ei_dst_chunk_size := - 7\<rparr>)"
  by (simp add: decode_def safe_load_def load_examples_def load_table_def
      negative_chunk_yaml_def social_yaml_def social_v2_yaml_def invalid_property_yaml_def
      invalid_vertex_yaml_def validate_def field_def VertexInfo_default_def
      EdgeInfo_default_def)

text \<open>
  C7 as amended: a chunk-size field accepts every integer.  Giving a chunk size
  \<open>n\<close>, of either sign, to a document that is accepted yields an accepted document,
  and the instance holds \<open>n\<close>.
\<close>

theorem C7_chunk_size_accepts_every_integer:
  "(validate VertexInfo_validator (PDict kvs) = Inr vm
        \<longrightarrow> validate VertexInfo_validator (PDict ((''chunk_size'', PInt n) # kvs))
              = Inr (vm\<lparr>vi_chunk_size := n\<rparr>))
   \<and> (validate EdgeInfo_validator (PDict kvs) = Inr em
        \<longrightarrow> validate EdgeInfo_validator (PDict ((''chunk_size'', PInt n) # kvs))
              = Inr (em\<lparr>ei_chunk_size := n\<rparr>)
            \<and> validate EdgeInfo_validator (PDict ((''src_chunk_size'', PInt n) # kvs))
              = Inr (em\<lparr>ei_src_chunk_size := n\<rparr>)
            \<and> validate EdgeInfo_validator (PDict ((''dst_chunk_size'', PInt n) # kvs))
              = Inr (em\<lparr>ei_dst_chunk_size := n\<rparr>))"
  by (simp only: validate_Inr VertexInfo_validator_Some EdgeInfo_validator_Some field_Cons)
     simp

theorem C7_chunk_size_accepts_every_integer_witness:
  "validate VertexInfo_validator (PDict [(''chunk_size'', PInt (- 1)), (''label'', PStr ''person'')])
     = Inr (VertexInfo_default\<lparr>vi_label := ''person'', vi_chunk_size := - 1\<rparr>)
   \<and> validate EdgeInfo_validator (PDict [(''dst_chunk_size'', PInt (- 1)), (''label'', PStr ''person'')])
     = Inr (EdgeInfo_default\<lparr>ei_dst_chunk_size := - 1\<rparr>)"
proof -
  have v: "validate VertexInfo_validator (PDict [(''label'', PStr ''person'')])
             = Inr (VertexInfo_default\<lparr>vi_label := ''person''\<rparr>)"
    by (simp add: validate_def field_def VertexInfo_default_def)
  have e: "validate EdgeInfo_validator (PDict [(''label'', PStr ''person'')])
             = Inr EdgeInfo_default"
    by (simp add: validate_def field_def EdgeInfo_default_def)
  show ?thesis
    using C7_chunk_size_accepts_every_integer
      [of "[(''label'', PStr ''person'')]" "VertexInfo_default\<lparr>vi_label := ''person''\<rparr>"
          "- 1" EdgeInfo_default] v e
    by simp
qed

subsection \<open>Defaults\<close>

text \<open>
  C9 (a document that omits \<^verbatim>\<open>version\<close>, or any subset of the fields, decodes into
  a top-level document type, and each missing field takes its declared default).
  Leaving any set \<open>S\<close> of keys out of a mapping that is accepted gives a mapping that is
  accepted, with the fields in \<open>S\<close> at their defaults and the others as before; the
  empty mapping gives the default instance; and whenever a text whose mapping has no
  \<^verbatim>\<open>version\<close> key decodes, the version is the empty string.
\<close>

theorem C9_missing_fields_take_their_defaults:
  "(validate VertexInfo_validator (PDict kvs) = Inr vm \<longrightarrow>
      validate VertexInfo_validator (PDict (omit S kvs))
        = Inr \<lparr>vi_label = (if ''label'' \<in> S then '''' else vi_label vm),
               vi_chunk_size = (if ''chunk_size'' \<in> S then 0 else vi_chunk_size vm),
               vi_prefix = (if ''prefix'' \<in> S then '''' else vi_prefix vm),
               vi_property_groups =
                 (if ''property_groups'' \<in> S then [] else vi_property_groups vm),
               vi_version = (if ''version'' \<in> S then '''' else vi_version vm)\<rparr>)
   \<and> (validate EdgeInfo_validator (PDict kvs) = Inr em \<longrightarrow>
      validate EdgeInfo_validator (PDict (omit S kvs))
        = Inr \<lparr>ei_src_label = (if ''src_label'' \<in> S then '''' else ei_src_label em),
               ei_edge_label = (if ''edge_label'' \<in> S then '''' else ei_edge_label em),
               ei_dst_label = (if ''dst_label'' \<in> S then '''' else ei_dst_label em),
               ei_chunk_size = (if ''chunk_size'' \<in> S then 0 else ei_chunk_size em),
               ei_src_chunk_size =
                 (if ''src_chunk_size'' \<in> S then 0 else ei_src_chunk_size em),
               ei_dst_chunk_size =
                 (if ''dst_chunk_size'' \<in> S then 0 else ei_dst_chunk_size em),
               ei_directed = (if ''directed'' \<in> S then False else ei_directed em),
               ei_prefix = (if ''prefix'' \<in> S then '''' else ei_prefix em),
               ei_adj_lists = (if ''adj_lists'' \<in> S then [] else ei_adj_lists em),
               ei_property_groups =
                 (if ''property_groups'' \<in> S then [] else ei_property_groups em),
               ei_version = (if ''version'' \<in> S then '''' else ei_version em)\<rparr>)
   \<and> (validate GraphInfo_validator (PDict kvs) = Inr gm \<longrightarrow>
      validate GraphInfo_validator (PDict (omit S kvs))
        = Inr \<lparr>gi_name = (if ''name'' \<in> S then '''' else gi_name gm),
               gi_prefix = (if ''prefix'' \<in> S then '''' else gi_prefix gm),
               gi_vertices = (if ''vertices'' \<in> S then [] else gi_vertices gm),
               gi_edges = (if ''edges'' \<in> S then [] else gi_edges gm),
               gi_version = (if ''version'' \<in> S then '''' else gi_version gm)\<rparr>)
   \<and> validate VertexInfo_validator (PDict []) = Inr VertexInfo_default
   \<and> validate EdgeInfo_validator (PDict []) = Inr EdgeInfo_default
   \<and> validate GraphInfo_validator (PDict []) = Inr GraphInfo_default
   \<and> (load text = Some (PDict kvs) \<and> map_of kvs ''version'' = None \<longrightarrow>
        (decode load VertexInfo_validator text = Inr vm \<longrightarrow> vi_version vm = '''')
        \<and> (decode load EdgeInfo_validator text = Inr em \<longrightarrow> ei_version em = '''')
        \<and> (decode load GraphInfo_validator text = Inr gm \<longrightarrow> gi_version gm = ''''))"
proof -
  have v: "validate VertexInfo_validator (PDict kvs) = Inr vm \<longrightarrow>
      validate VertexInfo_validator (PDict (omit S kvs))
        = Inr \<lparr>vi_label = (if ''label'' \<in> S then '''' else vi_label vm),
               vi_chunk_size = (if ''chunk_size'' \<in> S then 0 else vi_chunk_size vm),
               vi_prefix = (if ''prefix'' \<in> S then '''' else vi_prefix vm),
               vi_property_groups =
                 (if ''property_groups'' \<in> S then [] else vi_property_groups vm),
               vi_version = (if ''version'' \<in> S then '''' else vi_version vm)\<rparr>"
    by (simp only: validate_Inr VertexInfo_validator_Some field_omit) simp
  have e: "validate EdgeInfo_validator (PDict kvs) = Inr em \<longrightarrow>
      validate EdgeInfo_validator (PDict (omit S kvs))
        = Inr \<lparr>ei_src_label = (if ''src_label'' \<in> S then '''' else ei_src_label em),
               ei_edge_label = (if ''edge_label'' \<in> S then '''' else ei_edge_label em),
               ei_dst_label = (if ''dst_label'' \<in> S then '''' else ei_dst_label em),
               ei_chunk_size = (if ''chunk_size'' \<in> S then 0 else ei_chunk_size em),
               ei_src_chunk_size =
                 (if ''src_chunk_size'' \<in> S then 0 else ei_src_chunk_size em),
               ei_dst_chunk_size =
                 (if ''dst_chunk_size'' \<in> S then 0 else ei_dst_chunk_size em),
               ei_directed = (if ''directed'' \<in> S then False else ei_directed em),
               ei_prefix = (if ''prefix'' \<in> S then '''' else ei_prefix em),
               ei_adj_lists = (if ''adj_lists'' \<in> S then [] else ei_adj_lists em),
               ei_property_groups =
                 (if ''property_groups'' \<in> S then [] else ei_property_groups em),
               ei_version = (if ''version'' \<in> S then '''' else ei_version em)\<rparr>"
    by (simp only: validate_Inr EdgeInfo_validator_Some field_omit) simp
  have g: "validate GraphInfo_validator (PDict kvs) = Inr gm \<longrightarrow>
      validate GraphInfo_validator (PDict (omit S kvs))
        = Inr \<lparr>gi_name = (if ''name'' \<in> S then '''' else gi_name gm),
               gi_prefix = (if ''prefix'' \<in> S then '''' else gi_prefix gm),
               gi_vertices = (if ''vertices'' \<in> S then [] else gi_vertices gm),
               gi_edges = (if ''edges'' \<in> S then [] else gi_edges gm),
               gi_version = (if ''version'' \<in> S then '''' else gi_version gm)\<rparr>"
    by (simp only: validate_Inr GraphInfo_validator_Some field_omit) simp
  have d: "validate VertexInfo_validator (PDict []) = Inr VertexInfo_default
       \<and> validate EdgeInfo_validator (PDict []) = Inr EdgeInfo_default
       \<and> validate GraphInfo_validator (PDict []) = Inr GraphInfo_default"
    by (simp add: validate_def field_def VertexInfo_default_def EdgeInfo_default_def
        GraphInfo_default_def)
  have ver: "load text = Some (PDict kvs) \<and> map_of kvs ''version'' = None \<longrightarrow>
        (decode load VertexInfo_validator text = Inr vm \<longrightarrow> vi_version vm = '''')
        \<and> (decode load EdgeInfo_validator text = Inr em \<longrightarrow> ei_version em = '''')
        \<and> (decode load GraphInfo_validator text = Inr gm \<longrightarrow> gi_version gm = '''')"
  proof (intro impI, elim conjE)
    assume L: "load text = Some (PDict kvs)" and M: "map_of kvs ''version'' = None"
    have f: "field kvs ''version'' '''' str_validator = Some ''''"
      using M by (rule field_absent)
    show "(decode load VertexInfo_validator text = Inr vm \<longrightarrow> vi_version vm = '''')
        \<and> (decode load EdgeInfo_validator text = Inr em \<longrightarrow> ei_version em = '''')
        \<and> (decode load GraphInfo_validator text = Inr gm \<longrightarrow> gi_version gm = '''')"
      unfolding decode_loaded [of load "text" "PDict kvs", OF L] validate_Inr
        VertexInfo_validator_Some EdgeInfo_validator_Some GraphInfo_validator_Some f
      by simp
  qed
  from v e g d ver show ?thesis by (intro conjI) simp_all
qed

theorem C9_missing_fields_take_their_defaults_witness:
  "decode load_examples VertexInfo_validator label_only_yaml
     = Inr (VertexInfo_default\<lparr>vi_label := ''person''\<rparr>)
   \<and> vi_version (VertexInfo_default\<lparr>vi_label := ''person''\<rparr>) = ''''
   \<and> validate GraphInfo_validator
        (PDict (omit {''version'', ''edges''}
                  [(''edges'', PList [PStr ''knows'']), (''name'', PStr ''social''),
                   (''prefix'', PStr ''graph/''), (''version'', PStr ''v1''),
                   (''vertices'', PList [PStr ''person''])]))
     = Inr (social\<lparr>gi_edges := [], gi_version := ''''\<rparr>)"
proof -
  let ?kvs = "[(''edges'', PList [PStr ''knows'']), (''name'', PStr ''social''),
               (''prefix'', PStr ''graph/''), (''version'', PStr ''v1''),
               (''vertices'', PList [PStr ''person''])]"
  have l: "load_examples label_only_yaml = Some (PDict [(''label'', PStr ''person'')])"
    by (simp add: load_examples_def load_table_def label_only_yaml_def social_yaml_def
        social_v2_yaml_def invalid_property_yaml_def invalid_vertex_yaml_def
        negative_chunk_yaml_def)
  have dec: "decode load_examples VertexInfo_validator label_only_yaml
               = Inr (VertexInfo_default\<lparr>vi_label := ''person''\<rparr>)"
    by (simp add: decode_loaded [of load_examples label_only_yaml, OF l] validate_def
        field_def VertexInfo_default_def)
  have s: "validate GraphInfo_validator (PDict ?kvs) = Inr social"
    by (simp add: validate_def field_def social_def)
  have ver: "vi_version (VertexInfo_default\<lparr>vi_label := ''person''\<rparr>) = ''''"
    using C9_missing_fields_take_their_defaults
      [of "[(''label'', PStr ''person'')]" "VertexInfo_default\<lparr>vi_label := ''person''\<rparr>"
          "{}" EdgeInfo_default GraphInfo_default load_examples label_only_yaml] l dec
    by simp
  have om: "validate GraphInfo_validator (PDict (omit {''version'', ''edges''} ?kvs))
              = Inr (social\<lparr>gi_edges := [], gi_version := ''''\<rparr>)"
    using C9_missing_fields_take_their_defaults
      [of ?kvs VertexInfo_default "{''version'', ''edges''}" EdgeInfo_default social
          load_examples label_only_yaml] s
    by (simp add: social_def)
  from dec ver om show ?thesis by simp
qed

text \<open>
  C10 (the default-constructed Property has \<^verbatim>\<open>data_type\<close> equal to the empty
  string, which is none of the seven \<^verbatim>\<open>GarType\<close> literals; membership holds for
  decoded instances but not for the default, which is not validated) fails on the code
  in its second half: a document that gives no \<^verbatim>\<open>data_type\<close> decodes, and the
  decoded instance holds the unvalidated default \<^verbatim>\<open>""\<close>, which is no member.
\<close>

theorem C10_decoded_without_data_type_counterexample:
  "decode load_examples Property_validator name_only_yaml
     = Inr \<lparr>p_name = ''id'', p_data_type = RawStr '''', p_is_primary = False,
            p_is_nullable = None\<rparr>
   \<and> \<not> Property_valid \<lparr>p_name = ''id'', p_data_type = RawStr '''', p_is_primary = False,
                        p_is_nullable = None\<rparr>
   \<and> GarType_of '''' = None"
  by (simp add: decode_def safe_load_def load_examples_def load_table_def name_only_yaml_def
      social_yaml_def social_v2_yaml_def invalid_property_yaml_def invalid_vertex_yaml_def
      negative_chunk_yaml_def label_only_yaml_def validate_def field_def Property_valid_def
      GarType_of_def GarType_members_def)

text \<open>
  C10 as amended: constructing a Property from no arguments gives the default
  instance, whose \<^verbatim>\<open>data_type\<close> is the bare string \<^verbatim>\<open>""\<close>; no member has that
  value, so the instance is not valid and its own dump is rejected when validated.
  Membership holds exactly for a \<^verbatim>\<open>data_type\<close> that the mapping supplies: it is
  validated, and an accepted instance then holds a member; an instance accepted from a
  mapping without \<^verbatim>\<open>data_type\<close> holds the default \<^verbatim>\<open>""\<close>.
\<close>

theorem C10_default_data_type_is_no_literal:
  "validate Property_validator (PDict []) = Inr Property_default
   \<and> p_data_type Property_default = RawStr ''''
   \<and> length GarType_members = 7
   \<and> '''' \<notin> set (map GarType_value GarType_members)
   \<and> (\<forall>g. GarType_value g \<noteq> '''')
   \<and> GarType_of '''' = None
   \<and> \<not> Property_valid Property_default
   \<and> validate Property_validator (Property_dump Property_default)
       = Inl SchemaValidationError
   \<and> (\<forall>kvs v p. map_of kvs ''data_type'' = Some v
          \<and> validate Property_validator (PDict kvs) = Inr p
        \<longrightarrow> (\<exists>g. p_data_type p = Member g) \<and> Property_valid p)
   \<and> (\<forall>kvs p. map_of kvs ''data_type'' = None
          \<and> validate Property_validator (PDict kvs) = Inr p
        \<longrightarrow> p_data_type p = RawStr '''' \<and> \<not> Property_valid p)"
proof -
  have lit: "GarType_value g \<noteq> ''''" for g
    by (cases g) simp_all
  have dec: "(\<exists>g. p_data_type p = Member g) \<and> Property_valid p"
    if "map_of kvs ''data_type'' = Some v" and "validate Property_validator (PDict kvs) = Inr p"
    for kvs v p
  proof -
    from that(2) have "field kvs ''data_type'' (RawStr '''')
                         (\<lambda>v. map_option Member (GarType_validator v)) = Some (p_data_type p)"
      by (simp only: validate_Inr Property_validator_Some)
    with that(1) have "map_option Member (GarType_validator v) = Some (p_data_type p)"
      by (simp add: field_present)
    then obtain z where "Member z = p_data_type p" by auto
    then show ?thesis by (cases "p_data_type p") (auto simp: Property_valid_def)
  qed
  have c1: "validate Property_validator (PDict []) = Inr Property_default"
    by (simp add: validate_def field_def Property_default_def)
  have c2: "p_data_type Property_default = RawStr ''''"
    by (simp add: Property_default_def)
  have c3: "length GarType_members = 7"
    by (simp add: GarType_members_def)
  have c4: "'''' \<notin> set (map GarType_value GarType_members)"
    by (simp add: GarType_members_def)
  have c5: "\<forall>g. GarType_value g \<noteq> ''''"
    using lit by blast
  have c6: "GarType_of '''' = None"
    by (simp add: GarType_of_def GarType_members_def)
  have c7: "\<not> Property_valid Property_default"
    by (simp add: Property_valid_def Property_default_def)
  have c8: "validate Property_validator (Property_dump Property_default)
              = Inl SchemaValidationError"
    by (simp add: validate_def field_def Property_default_def Property_dump_def
        GarType_of_def GarType_members_def)
  have c9: "\<forall>kvs v p. map_of kvs ''data_type'' = Some v
          \<and> validate Property_validator (PDict kvs) = Inr p
        \<longrightarrow> (\<exists>g. p_data_type p = Member g) \<and> Property_valid p"
    using dec by blast
  have c10: "\<forall>kvs p. map_of kvs ''data_type'' = None
          \<and> validate Property_validator (PDict kvs) = Inr p
        \<longrightarrow> p_data_type p = RawStr '''' \<and> \<not> Property_valid p"
  proof (intro allI impI, elim conjE)
    fix kvs p
    assume absent: "map_of kvs ''data_type'' = None"
      and accepted: "validate Property_validator (PDict kvs) = Inr p"
    from accepted have "field kvs ''data_type'' (RawStr '''')
                          (\<lambda>v. map_option Member (GarType_validator v))
                        = Some (p_data_type p)"
      by (simp only: validate_Inr Property_validator_Some)
    with absent have "p_data_type p = RawStr ''''"
      by (simp add: field_absent)
    then show "p_data_type p = RawStr '''' \<and> \<not> Property_valid p"
      by (simp add: Property_valid_def)
  qed
  from c1 c2 c3 c4 c5 c6 c7 c8 c9 c10 show ?thesis by blast
qed

theorem C10_default_data_type_is_no_literal_witness:
  "validate Property_validator (PDict [(''data_type'', PStr ''int64''), (''name'', PStr ''id'')])
     = Inr \<lparr>p_name = ''id'', p_data_type = Member INT64, p_is_primary = False,
            p_is_nullable = None\<rparr>
   \<and> Property_valid \<lparr>p_name = ''id'', p_data_type = Member INT64, p_is_primary = False,
                      p_is_nullable = None\<rparr>
   \<and> validate Property_validator (PDict [(''name'', PStr ''id'')])
     = Inr \<lparr>p_name = ''id'', p_data_type = RawStr '''', p_is_primary = False,
            p_is_nullable = None\<rparr>
   \<and> \<not> Property_valid \<lparr>p_name = ''id'', p_data_type = RawStr '''', p_is_primary = False,
                        p_is_nullable = None\<rparr>
   \<and> \<not> Property_valid Property_default"
proof -
  let ?kvs = "[(''data_type'', PStr ''int64''), (''name'', PStr ''id'')]"
  let ?p = "\<lparr>p_name = ''id'', p_data_type = Member INT64, p_is_primary = False,
            p_is_nullable = None\<rparr>"
  let ?kvs' = "[(''name'', PStr ''id'')]"
  let ?p' = "\<lparr>p_name = ''id'', p_data_type = RawStr '''', p_is_primary = False,
             p_is_nullable = None\<rparr>"
  have a: "validate Property_validator (PDict ?kvs) = Inr ?p"
    by (simp add: validate_def field_def GarType_of_def GarType_members_def)
  have b: "map_of ?kvs ''data_type'' = Some (PStr ''int64'')"
    by simp
  have a': "validate Property_validator (PDict ?kvs') = Inr ?p'"
    by (simp add: validate_def field_def)
  have b': "map_of ?kvs' ''data_type'' = None"
    by simp
  from C10_default_data_type_is_no_literal a b a' b'
  have "Property_valid ?p \<and> \<not> Property_valid ?p' \<and> \<not> Property_valid Property_default"
    by blast
  with a a' show ?thesis by simp
qed

subsection \<open>Reading a location without a document\<close>

text \<open>
  C8 (reading a location at which no records exist raises a not-found error) fails
  on the code for a location that exists and holds no record: Spark returns no rows,
  the joined text is empty, \<^verbatim>\<open>yaml.safe_load\<close> returns \<^verbatim>\<open>None\<close> for it, and
  validation rejects \<^verbatim>\<open>None\<close>.
\<close>

theorem C8_empty_location_counterexample:
  "read_text (Map.empty(''graph.yml'' \<mapsto> [])) ''graph.yml'' = Inr []
   \<and> from_yaml load_examples GraphInfo_validator (Map.empty(''graph.yml'' \<mapsto> []))
       ''graph.yml'' = Inl SchemaValidationError
   \<and> read_yaml_from_any load_examples (validate GraphInfo_validator)
       (Map.empty(''graph.yml'' \<mapsto> [])) ''graph.yml'' \<noteq> Inl NotFoundError"
  by (simp add: from_yaml_def read_yaml_from_any_def read_text_def safe_load_def
      load_examples_def load_table_def validate_def)

text \<open>
  C8 as amended: reading a location that does not exist in the store raises the
  not-found error of the store, which is neither a parse error nor a validation
  error.
\<close>

theorem C8_missing_location_raises_not_found:
  "st location = None \<Longrightarrow>
     read_yaml_from_any load (validate cls) st location = Inl NotFoundError
     \<and> from_yaml load cls st location = Inl NotFoundError
     \<and> NotFoundError \<noteq> ParseError \<and> NotFoundError \<noteq> SchemaValidationError"
  by (simp add: from_yaml_def read_yaml_from_any_def read_text_def)

theorem C8_missing_location_raises_not_found_witness:
  "from_yaml load_examples GraphInfo_validator Map.empty ''graph.yml'' = Inl NotFoundError"
  using C8_missing_location_raises_not_found
    [of Map.empty "''graph.yml''" load_examples GraphInfo_validator]
  by simp

subsection \<open>Dump and validation\<close>

text \<open>
  Validating the dump of an instance with valid field values gives the instance back,
  with the three states of \<^verbatim>\<open>is_nullable\<close> and the order of every sequence intact.
\<close>

lemma Property_validator_dump:
  "Property_valid p \<Longrightarrow> Property_validator (Property_dump p) = Some p"
  by (cases p)
     (auto simp: Property_valid_def Property_dump_def field_def
       split: data_type_attr.splits option.splits)

lemma AdjList_validator_dump: "AdjList_validator (AdjList_dump a) = Some a"
  by (cases a) (simp add: AdjList_dump_def field_def)

lemma PropertyGroup_validator_dump:
  "PropertyGroup_valid g \<Longrightarrow> PropertyGroup_validator (PropertyGroup_dump g) = Some g"
  by (cases g)
     (simp add: PropertyGroup_valid_def PropertyGroup_dump_def field_def list_all_iff
       those_map_comp_dump Property_validator_dump)

lemma VertexInfo_validator_dump:
  "VertexInfo_valid m \<Longrightarrow> VertexInfo_validator (VertexInfo_dump m) = Some m"
  by (cases m)
     (simp add: VertexInfo_valid_def VertexInfo_dump_def field_def list_all_iff
       those_map_comp_dump PropertyGroup_validator_dump)

lemma EdgeInfo_validator_dump:
  "EdgeInfo_valid m \<Longrightarrow> EdgeInfo_validator (EdgeInfo_dump m) = Some m"
  by (cases m)
     (simp add: EdgeInfo_valid_def EdgeInfo_dump_def field_def list_all_iff
       those_map_comp_dump PropertyGroup_validator_dump AdjList_validator_dump)

lemma GraphInfo_validator_dump: "GraphInfo_validator (GraphInfo_dump m) = Some m"
proof -
  have "those (map str_validator (map PStr xs)) = Some xs" for xs
    by (rule those_map_dump) simp
  then show ?thesis
    by (cases m) (simp add: GraphInfo_dump_def field_def)
qed

subsection \<open>What safe_dump can represent\<close>

lemma representable_Property_dump:
  "representable (Property_dump p) \<longleftrightarrow> \<not> Property_valid p"
  by (auto simp: Property_dump_def Property_valid_def
      split: data_type_attr.splits option.splits)

lemma not_representable_PropertyGroup_dump: "\<not> representable (PropertyGroup_dump g)"
  by (simp add: PropertyGroup_dump_def)

lemma not_representable_AdjList_dump: "\<not> representable (AdjList_dump a)"
  by (simp add: AdjList_dump_def)

lemma representable_VertexInfo_dump:
  "representable (VertexInfo_dump m) \<longleftrightarrow> vi_property_groups m = []"
  by (cases "vi_property_groups m")
     (simp_all add: VertexInfo_dump_def not_representable_PropertyGroup_dump)

lemma representable_EdgeInfo_dump:
  "representable (EdgeInfo_dump m) \<longleftrightarrow> ei_adj_lists m = [] \<and> ei_property_groups m = []"
  by (cases "ei_adj_lists m"; cases "ei_property_groups m")
     (simp_all add: EdgeInfo_dump_def not_representable_PropertyGroup_dump
       not_representable_AdjList_dump)

lemma representable_GraphInfo_dump: "representable (GraphInfo_dump m)"
  by (auto simp: GraphInfo_dump_def)

text \<open>
  So the encoder raises on every vertex or edge document that has a property group or
  an adjacency list, and on every Property with a valid \<^verbatim>\<open>data_type\<close>.
\<close>

lemma encode_VertexInfo_raises:
  "vi_property_groups m \<noteq> [] \<Longrightarrow> encode emit VertexInfo_dump m = Inl RepresenterError"
  by (simp add: encode_def safe_dump_def representable_VertexInfo_dump)

lemma encode_EdgeInfo_raises:
  "ei_adj_lists m \<noteq> [] \<or> ei_property_groups m \<noteq> [] \<Longrightarrow>
     encode emit EdgeInfo_dump m = Inl RepresenterError"
  by (simp add: encode_def safe_dump_def representable_EdgeInfo_dump)

lemma encode_Property_raises:
  "Property_valid p \<Longrightarrow> encode emit Property_dump p = Inl RepresenterError"
  by (simp add: encode_def safe_dump_def representable_Property_dump)

text \<open>
  Where the encoder does not raise, the codec gives the instance back as soon as the
  parser returns, for the text printed, a dict with the entries of the dump (in any
  order).
\<close>

lemma GraphInfo_validator_entries:
  "map_of kvs = map_of kvs' \<Longrightarrow>
     GraphInfo_validator (PDict kvs) = GraphInfo_validator (PDict kvs')"
  by (simp add: field_def)

lemma GraphInfo_codec_round_trip:
  assumes "encode emit GraphInfo_dump m = Inr text"
    and "load text = Some (PDict kvs)"
    and "GraphInfo_dump m = PDict kvs'" and "map_of kvs = map_of kvs'"
  shows "decode load GraphInfo_validator text = Inr m"
proof -
  have "GraphInfo_validator (PDict kvs) = GraphInfo_validator (PDict kvs')"
    using assms(4) by (rule GraphInfo_validator_entries)
  then have "GraphInfo_validator (PDict kvs) = Some m"
    by (simp only: assms(3) [symmetric] GraphInfo_validator_dump)
  then show ?thesis
    by (simp add: decode_loaded [of load "text", OF assms(2)] validate_def
        del: GraphInfo_validator.simps)
qed

text \<open>
  C3 (decoding the text produced by encoding an instance with valid field values gives
  the instance back, tri-state \<^verbatim>\<open>is_nullable\<close> and sequence order included): the
  encoder passes \<^verbatim>\<open>model_dump(mode="python")\<close> to \<^verbatim>\<open>yaml.safe_dump\<close>, and that
  mapping holds the members of \<^verbatim>\<open>FileType\<close> and \<^verbatim>\<open>GarType\<close> as objects, which
  \<^verbatim>\<open>safe_dump\<close> cannot represent.  For the vertex type \<open>person\<close>, whose field values
  are valid and whose dump validates back to it, encoding raises whatever the printer,
  so there is no text to decode.
\<close>

theorem C3_encode_raises_on_enumeration_members:
  "VertexInfo_valid person
   \<and> validate VertexInfo_validator (VertexInfo_dump person) = Inr person
   \<and> encode emit VertexInfo_dump person = Inl RepresenterError"
proof -
  have v: "VertexInfo_valid person"
    by (simp add: VertexInfo_valid_def PropertyGroup_valid_def Property_valid_def person_def)
  have g: "vi_property_groups person \<noteq> []"
    by (simp add: person_def)
  from v g show ?thesis
    by (simp add: validate_def VertexInfo_validator_dump encode_VertexInfo_raises)
qed

subsection \<open>The store round trip\<close>

text \<open>
  The write of the code succeeds only on a text whose lines all have exactly one
  character; the text of a YAML mapping is never of that kind.
\<close>

lemma save_raw_text_rows:
  "save_text_overwrite st location (createDataFrame (raw_text_rows text)) = Inr st' \<Longrightarrow>
     \<forall>l \<in> set (split_nl text). length l = 1"
  by (auto simp: save_text_overwrite_def createDataFrame_def raw_text_rows_def
      tuple_of_str_def list_all_iff split: if_splits)

lemma to_yaml_social:
  "to_yaml emit_examples GraphInfo_dump st ''graph.yml'' social = Inl TextSchemaError"
proof -
  have emit: "emit_examples (GraphInfo_dump social) = social_yaml"
    by (simp add: emit_examples_def)
  show ?thesis
    by (simp add: to_yaml_def write_yaml_to_any_def safe_dump_def representable_GraphInfo_dump
        emit raw_text_rows_def social_yaml_lines tuple_of_str_def createDataFrame_def
        save_text_overwrite_def)
qed

lemma social_v2_yaml_lines:
  "split_nl social_v2_yaml =
     [''edges:'', ''- knows'', ''name: social'', ''prefix: graph/'', ''version: v2'',
      ''vertices:'', ''- person'', '''']"
  unfolding social_v2_yaml_def by (rule split_join_nl) simp_all

lemma to_yaml_social_v2:
  "to_yaml emit_examples GraphInfo_dump st ''graph.yml'' social_v2 = Inl TextSchemaError"
proof -
  have emit: "emit_examples (GraphInfo_dump social_v2) = social_v2_yaml"
    by (simp add: emit_examples_def GraphInfo_dump_def social_def social_v2_def)
  show ?thesis
    by (simp add: to_yaml_def write_yaml_to_any_def safe_dump_def representable_GraphInfo_dump
        emit raw_text_rows_def social_v2_yaml_lines tuple_of_str_def createDataFrame_def
        save_text_overwrite_def)
qed

lemma decode_social: "decode load_examples GraphInfo_validator social_yaml = Inr social"
  by (simp add: decode_def safe_load_def load_examples_def load_table_def validate_def
      field_def social_def social_yaml_def)

lemma decode_social_v2:
  "decode load_examples GraphInfo_validator social_v2_yaml = Inr social_v2"
  by (simp add: decode_def safe_load_def load_examples_def load_table_def validate_def
      field_def social_v2_def social_yaml_def social_v2_yaml_def)

lemma from_yaml_stored:
  "st location = Some (split_nl text) \<Longrightarrow>
     from_yaml load cls st location = decode load cls text"
  by (simp add: from_yaml_def read_yaml_from_any_def read_text_def decode_def join_split_nl)

text \<open>
  C2 (writing an instance with \<^verbatim>\<open>to_yaml\<close> and reading it back with
  \<^verbatim>\<open>from_yaml\<close>, on a store that keeps the order of single-column writes, returns
  an equal instance): for the example graph of the specification the write raises,
  because the rows submitted are tuples of characters, and the read that follows finds
  no location.  The same store returns the graph when it is given the records of the
  write path of the specification.
\<close>

theorem C2_store_round_trip_fails_at_write:
  "to_yaml emit_examples GraphInfo_dump Map.empty ''graph.yml'' social = Inl TextSchemaError
   \<and> from_yaml load_examples GraphInfo_validator Map.empty ''graph.yml'' = Inl NotFoundError
   \<and> save_text_overwrite Map.empty ''graph.yml'' (put_records_spec social_yaml)
       = Inr (Map.empty(''graph.yml'' \<mapsto> split_nl social_yaml))
   \<and> from_yaml load_examples GraphInfo_validator
       (Map.empty(''graph.yml'' \<mapsto> split_nl social_yaml)) ''graph.yml'' = Inr social"
proof -
  have "from_yaml load_examples GraphInfo_validator Map.empty ''graph.yml'' = Inl NotFoundError"
    by (simp add: from_yaml_def read_yaml_from_any_def read_text_def)
  moreover have "from_yaml load_examples GraphInfo_validator
       (Map.empty(''graph.yml'' \<mapsto> split_nl social_yaml)) ''graph.yml'' = Inr social"
    by (simp add: from_yaml_stored decode_social)
  ultimately show ?thesis
    by (simp add: to_yaml_social save_put_records_spec)
qed

text \<open>
  C5 (writing a first instance and then a second to the same location replaces the
  records, so that a read returns the second): both writes of the code raise, for the
  reason given at C2, and the read finds no location instead of the second graph.  On
  the records of the write path of the specification the store does replace the first
  document by the second.
\<close>

theorem C5_second_write_is_never_read_back:
  "to_yaml emit_examples GraphInfo_dump Map.empty ''graph.yml'' social = Inl TextSchemaError
   \<and> to_yaml emit_examples GraphInfo_dump Map.empty ''graph.yml'' social_v2
       = Inl TextSchemaError
   \<and> from_yaml load_examples GraphInfo_validator Map.empty ''graph.yml'' \<noteq> Inr social_v2
   \<and> save_text_overwrite (Map.empty(''graph.yml'' \<mapsto> split_nl social_yaml)) ''graph.yml''
         (put_records_spec social_v2_yaml)
       = Inr (Map.empty(''graph.yml'' \<mapsto> split_nl social_v2_yaml))
   \<and> from_yaml load_examples GraphInfo_validator
       (Map.empty(''graph.yml'' \<mapsto> split_nl social_v2_yaml)) ''graph.yml'' = Inr social_v2"
proof -
  have "from_yaml load_examples GraphInfo_validator Map.empty ''graph.yml'' = Inl NotFoundError"
    by (simp add: from_yaml_def read_yaml_from_any_def read_text_def)
  moreover have "from_yaml load_examples GraphInfo_validator
       (Map.empty(''graph.yml'' \<mapsto> split_nl social_v2_yaml)) ''graph.yml'' = Inr social_v2"
    by (simp add: from_yaml_stored decode_social_v2)
  ultimately show ?thesis
    by (simp add: to_yaml_social to_yaml_social_v2 save_put_records_spec)
qed
end
